theory Spec2Isabelle
  imports Complex_Main
begin

section \<open>Python values and exceptions\<close>

text \<open>
  The models of \<^verbatim>\<open>stops/models.py\<close> are populated from dictionaries produced by
  \<^verbatim>\<open>json.loads\<close>. A decoded JSON document is a Python value of one of seven shapes;
  \<open>JNull\<close> is Python's \<^verbatim>\<open>None\<close>. A \<open>JFloat\<close> stands for a finite double, taken as
  the real number it denotes: the code under study never computes with floats, it only
  passes them on or truncates them with \<^verbatim>\<open>int\<close>. A \<open>JObj\<close> is a dict, given by its
  items (the keys are distinct) and looked up with \<open>map_of\<close>.
\<close>

datatype json =
    JNull
  | JBool bool
  | JInt int
  | JFloat real
  | JStr string
  | JList "json list"
  | JObj "(string \<times> json) list"

text \<open>
  The exceptions that the modelled code can raise. \<open>IdentityMismatch\<close> is the
  \<^verbatim>\<open>ValueError\<close> of the explicit \<^verbatim>\<open>raise\<close> statements in \<^verbatim>\<open>set_from_api\<close>
  ("... in database can't be set with ... from api"); \<open>ValueError\<close> is the one raised by
  \<^verbatim>\<open>int\<close> and \<^verbatim>\<open>datetime.time\<close>.
\<close>

datatype error =
    IdentityMismatch
  | KeyError
  | TypeError
  | ValueError
  | DoesNotExist

subsection \<open>Expressions: evaluation that may raise\<close>

definition bind_r :: "error + 'a \<Rightarrow> ('a \<Rightarrow> error + 'b) \<Rightarrow> error + 'b" where
  "bind_r r f = (case r of Inl e \<Rightarrow> Inl e | Inr v \<Rightarrow> f v)"

text \<open>\<^verbatim>\<open>d[k]\<close> for a string key \<open>k\<close>: only a dict can be subscripted with a string.\<close>

definition getitem :: "json \<Rightarrow> string \<Rightarrow> error + json" where
  "getitem d k =
     (case d of
        JObj kvs \<Rightarrow> (case map_of kvs k of None \<Rightarrow> Inl KeyError | Some v \<Rightarrow> Inr v)
      | _ \<Rightarrow> Inl TypeError)"

text \<open>\<^verbatim>\<open>v[:300]\<close>: strings and lists can be sliced, nothing else among JSON values.\<close>

definition slice300 :: "json \<Rightarrow> error + json" where
  "slice300 v =
     (case v of
        JStr s \<Rightarrow> Inr (JStr (take 300 s))
      | JList xs \<Rightarrow> Inr (JList (take 300 xs))
      | _ \<Rightarrow> Inl TypeError)"

text \<open>Truth value of a Python value, and \<^verbatim>\<open>v or None\<close>.\<close>

definition truthy :: "json \<Rightarrow> bool" where
  "truthy v =
     (case v of
        JNull \<Rightarrow> False
      | JBool b \<Rightarrow> b
      | JInt n \<Rightarrow> n \<noteq> 0
      | JFloat r \<Rightarrow> r \<noteq> 0
      | JStr s \<Rightarrow> s \<noteq> []
      | JList xs \<Rightarrow> xs \<noteq> []
      | JObj kvs \<Rightarrow> kvs \<noteq> [])"

definition or_None :: "json \<Rightarrow> json" where
  "or_None v = (if truthy v then v else JNull)"


subsection \<open>\<^verbatim>\<open>int(...)\<close>\<close>

text \<open>
  \<^verbatim>\<open>int\<close> of a string strips surrounding whitespace, reads an optional sign and then
  expects one or more decimal digits; anything else is a \<^verbatim>\<open>ValueError\<close>. \<^verbatim>\<open>int\<close> of a
  float truncates towards zero, of a bool gives 0 or 1, and of \<^verbatim>\<open>None\<close>, a list or a
  dict is a \<^verbatim>\<open>TypeError\<close>.
\<close>

definition is_space :: "char \<Rightarrow> bool" where
  "is_space c = (c \<in> set [CHR '' '', CHR 0x09, CHR 0x0A, CHR 0x0B, CHR 0x0C, CHR 0x0D])"

definition is_digit :: "char \<Rightarrow> bool" where
  "is_digit c = (48 \<le> (of_char c :: nat) \<and> (of_char c :: nat) \<le> 57)"

definition strip :: "string \<Rightarrow> string" where
  "strip s = rev (dropWhile is_space (rev (dropWhile is_space s)))"

fun digits_value :: "int \<Rightarrow> string \<Rightarrow> int option" where
  "digits_value acc [] = Some acc"
| "digits_value acc (c # cs) =
     (if is_digit c then digits_value (10 * acc + (int (of_char c) - 48)) cs else None)"

definition unsigned_literal :: "string \<Rightarrow> int option" where
  "unsigned_literal s = (if s = [] then None else digits_value 0 s)"

definition int_literal :: "string \<Rightarrow> int option" where
  "int_literal s =
     (case strip s of
        [] \<Rightarrow> None
      | c # cs \<Rightarrow>
          if c = CHR ''-'' then map_option uminus (unsigned_literal cs)
          else if c = CHR ''+'' then unsigned_literal cs
          else unsigned_literal (c # cs))"

definition py_int :: "json \<Rightarrow> error + int" where
  "py_int v =
     (case v of
        JInt n \<Rightarrow> Inr n
      | JBool b \<Rightarrow> Inr (if b then 1 else 0)
      | JFloat r \<Rightarrow> Inr (if 0 \<le> r then \<lfloor>r\<rfloor> else \<lceil>r\<rceil>)
      | JStr s \<Rightarrow> (case int_literal s of None \<Rightarrow> Inl ValueError | Some n \<Rightarrow> Inr n)
      | _ \<Rightarrow> Inl TypeError)"

subsection \<open>Statements: a method body mutating \<^verbatim>\<open>self\<close>\<close>

text \<open>
  A statement takes the receiver's state and returns the exception it raised, if any,
  together with the state it left behind: what was assigned before a \<^verbatim>\<open>raise\<close> stays
  assigned.
\<close>

type_synonym 's stmt = "'s \<Rightarrow> error option \<times> 's"

text \<open>\<^verbatim>\<open>if c: raise e\<close>, where evaluating \<open>c\<close> may raise itself.\<close>

definition if_raise :: "('s \<Rightarrow> error + bool) \<Rightarrow> error \<Rightarrow> 's stmt" where
  "if_raise c e s =
     (case c s of
        Inl x \<Rightarrow> (Some x, s)
      | Inr b \<Rightarrow> (if b then (Some e, s) else (None, s)))"

text \<open>\<^verbatim>\<open>self.f = expr\<close>: the expression is evaluated first, then the field is set.\<close>

definition assign :: "('v \<Rightarrow> 's \<Rightarrow> 's) \<Rightarrow> ('s \<Rightarrow> error + 'v) \<Rightarrow> 's stmt" where
  "assign upd ex s = (case ex s of Inl x \<Rightarrow> (Some x, s) | Inr v \<Rightarrow> (None, upd v s))"

text \<open>A block runs its statements in order and stops at the first exception.\<close>

fun block :: "'s stmt list \<Rightarrow> 's stmt" where
  "block [] s = (None, s)"
| "block (st # rest) s =
     (case st s of
        (None, s') \<Rightarrow> block rest s'
      | (Some e, s') \<Rightarrow> (Some e, s'))"

section \<open>Geometry\<close>

text \<open>
  \<^verbatim>\<open>models.py\<close> imports the geometry classes \<^verbatim>\<open>Point\<close> and \<^verbatim>\<open>LineString\<close> from
  \<^verbatim>\<open>django.contrib.gis.geos\<close>; their code is not part of the repository. A geometry
  holds its coordinates as the reals that the payload's numbers denote (\<^verbatim>\<open>bool\<close> is
  a subclass of \<^verbatim>\<open>int\<close>, so it counts as a number).
\<close>

datatype Point = Point real real

datatype LineString = LineString "(real \<times> real) list"

definition number :: "json \<Rightarrow> real option" where
  "number v =
     (case v of
        JInt n \<Rightarrow> Some (of_int n)
      | JFloat r \<Rightarrow> Some r
      | JBool b \<Rightarrow> Some (if b then 1 else 0)
      | _ \<Rightarrow> None)"

text \<open>
  Modelled from the spec: the constructor \<^verbatim>\<open>Point(x, y)\<close>, which is missing from the
  sources. The spec has the geometry of a stop be a single point built from two numeric
  values, (longitude, latitude) in that axis order. A value that is not numeric is a
  \<^verbatim>\<open>TypeError\<close>.
\<close>

definition Point_init :: "json \<Rightarrow> json \<Rightarrow> error + Point" where
  "Point_init x y =
     (case (number x, number y) of
        (Some a, Some b) \<Rightarrow> Inr (Point a b)
      | _ \<Rightarrow> Inl TypeError)"

definition coord_pair :: "json \<Rightarrow> (real \<times> real) option" where
  "coord_pair c =
     (case c of
        JList [x, y] \<Rightarrow>
          (case (number x, number y) of
             (Some a, Some b) \<Rightarrow> Some (a, b)
           | _ \<Rightarrow> None)
      | _ \<Rightarrow> None)"

fun coord_pairs :: "json list \<Rightarrow> (real \<times> real) list option" where
  "coord_pairs [] = Some []"
| "coord_pairs (c # cs) =
     (case coord_pair c of
        None \<Rightarrow> None
      | Some p \<Rightarrow> (case coord_pairs cs of None \<Rightarrow> None | Some ps \<Rightarrow> Some (p # ps)))"

text \<open>
  Modelled from the spec: the constructor of \<^verbatim>\<open>LineString\<close>, which is missing
  from the sources. The spec has the path be built from a list of [longitude, latitude]
  pairs, preserve the coordinate order exactly as given, and fail if there are fewer
  than 2 points. An argument that is not a pair of numbers is a \<^verbatim>\<open>TypeError\<close>, and
  so is the failure for too few points.
\<close>

definition LineString_init :: "json list \<Rightarrow> error + LineString" where
  "LineString_init args =
     (case coord_pairs args of
        None \<Rightarrow> Inl TypeError
      | Some ps \<Rightarrow> if length ps < 2 then Inl TypeError else Inr (LineString ps))"

text \<open>
  \<^verbatim>\<open>[coord for coord in v]\<close>: a list yields its elements, a string its characters and
  a dict its keys (in some order; here the order of the items); other JSON values
  cannot be iterated.
\<close>

definition list_of_iter :: "json \<Rightarrow> error + json list" where
  "list_of_iter v =
     (case v of
        JList xs \<Rightarrow> Inr xs
      | JStr s \<Rightarrow> Inr (map (\<lambda>c. JStr [c]) s)
      | JObj kvs \<Rightarrow> Inr (map (\<lambda>k. JStr k) (remdups (map fst kvs)))
      | _ \<Rightarrow> Inl TypeError)"

section \<open>The models of \<^verbatim>\<open>stops/models.py\<close>\<close>

text \<open>
  Timestamps of the two bookkeeping fields are seconds on some clock. Attributes that
  \<^verbatim>\<open>set_from_api\<close> fills with whatever the payload holds have type \<open>json\<close>.
\<close>

type_synonym datetime = nat

subsection \<open>\<^verbatim>\<open>Stop\<close>\<close>

record Stop =
  Stop_created_at :: datetime
  Stop_modified_at :: datetime
  Stop_id :: "int option"
  stop_code :: "int option"
  stop_name :: json
  Stop_geom :: "Point option"

text \<open>
  \<^verbatim>\<open>Stop()\<close>: the two timestamp fields default to the current time, a
  \<^verbatim>\<open>CharField\<close> to the empty string, the other fields to \<^verbatim>\<open>None\<close>.
\<close>

definition Stop_new :: "datetime \<Rightarrow> Stop" where
  "Stop_new now =
     \<lparr>Stop_created_at = now, Stop_modified_at = now, Stop_id = None, stop_code = None,
      stop_name = JStr [], Stop_geom = None\<rparr>"

text \<open>
  \<^verbatim>\<open>Stop.set_from_api\<close>, lines 24 to 36: the identity check of lines 31 to 33, then the
  three assignments of lines 34, 35 and 36.
\<close>

definition Stop_set_from_api :: "json \<Rightarrow> Stop stmt" where
  "Stop_set_from_api api_data =
     block
       [if_raise
          (\<lambda>self. case Stop_id self of
                     None \<Rightarrow> Inr False
                   | Some i \<Rightarrow>
                       bind_r (getitem api_data ''stop_id'') (\<lambda>v.
                       bind_r (py_int v) (\<lambda>j. Inr (j \<noteq> i))))
          IdentityMismatch,
        assign (\<lambda>v self. self\<lparr>stop_code := Some v\<rparr>)
          (\<lambda>self. bind_r (getitem api_data ''stop_code'') py_int),
        assign (\<lambda>v self. self\<lparr>stop_name := v\<rparr>)
          (\<lambda>self. bind_r (getitem api_data ''stop_name'') slice300),
        assign (\<lambda>v self. self\<lparr>Stop_geom := Some v\<rparr>)
          (\<lambda>self. bind_r (getitem api_data ''stop_lon'') (\<lambda>x.
           bind_r (getitem api_data ''stop_lat'') (\<lambda>y. Point_init x y)))]"

subsection \<open>\<^verbatim>\<open>Route\<close>\<close>

record Route =
  Route_created_at :: datetime
  Route_modified_at :: datetime
  Route_id :: "int option"
  route_short_name :: json
  route_long_name :: json
  route_desc :: json
  route_color :: json
  route_text_color :: json

text \<open>\<^verbatim>\<open>Route()\<close>: nullable fields default to \<^verbatim>\<open>None\<close>, the colours to "000000".\<close>

definition Route_new :: "datetime \<Rightarrow> Route" where
  "Route_new now =
     \<lparr>Route_created_at = now, Route_modified_at = now, Route_id = None,
      route_short_name = JNull, route_long_name = JNull, route_desc = JNull,
      route_color = JStr ''000000'', route_text_color = JStr ''000000''\<rparr>"

text \<open>
  \<^verbatim>\<open>Route.set_from_api\<close>, lines 56 to 70: the identity check of lines 63 to 65, then
  the five assignments of lines 66 to 70.
\<close>

definition Route_set_from_api :: "json \<Rightarrow> Route stmt" where
  "Route_set_from_api api_data =
     block
       [if_raise
          (\<lambda>self. case Route_id self of
                     None \<Rightarrow> Inr False
                   | Some i \<Rightarrow>
                       bind_r (getitem api_data ''route_id'') (\<lambda>v.
                       bind_r (py_int v) (\<lambda>j. Inr (j \<noteq> i))))
          IdentityMismatch,
        assign (\<lambda>v self. self\<lparr>route_short_name := v\<rparr>)
          (\<lambda>self. bind_r (getitem api_data ''route_short_name'') slice300),
        assign (\<lambda>v self. self\<lparr>route_long_name := v\<rparr>)
          (\<lambda>self. bind_r (getitem api_data ''route_long_name'') slice300),
        assign (\<lambda>v self. self\<lparr>route_desc := v\<rparr>)
          (\<lambda>self. bind_r (getitem api_data ''route_desc'') (\<lambda>v. Inr (or_None v))),
        assign (\<lambda>v self. self\<lparr>route_color := v\<rparr>)
          (\<lambda>self. bind_r (getitem api_data ''route_color'') (\<lambda>v. Inr (or_None v))),
        assign (\<lambda>v self. self\<lparr>route_text_color := v\<rparr>)
          (\<lambda>self. bind_r (getitem api_data ''route_text_color'') (\<lambda>v. Inr (or_None v)))]"

subsection \<open>\<^verbatim>\<open>Trip\<close>\<close>

record Trip =
  Trip_created_at :: datetime
  Trip_modified_at :: datetime
  Trip_id :: "int option"
  trip_headsign :: json
  Trip_geom :: "LineString option"

text \<open>
  \<^verbatim>\<open>Trip()\<close>, and \<^verbatim>\<open>Trip.set_from_api\<close>, lines 88 to 99: the identity check of lines
  95 to 97, which reads the payload's \<^verbatim>\<open>route_id\<close>, then the assignments of lines 98
  and 99. The class has no field for a route.
\<close>

definition Trip_new :: "datetime \<Rightarrow> Trip" where
  "Trip_new now =
     \<lparr>Trip_created_at = now, Trip_modified_at = now, Trip_id = None,
      trip_headsign = JStr [], Trip_geom = None\<rparr>"

definition Trip_set_from_api :: "json \<Rightarrow> Trip stmt" where
  "Trip_set_from_api api_data =
     block
       [if_raise
          (\<lambda>self. case Trip_id self of
                     None \<Rightarrow> Inr False
                   | Some i \<Rightarrow>
                       bind_r (getitem api_data ''route_id'') (\<lambda>v.
                       bind_r (py_int v) (\<lambda>j. Inr (j \<noteq> i))))
          IdentityMismatch,
        assign (\<lambda>v self. self\<lparr>trip_headsign := v\<rparr>)
          (\<lambda>self. bind_r (getitem api_data ''trip_headsign'') slice300),
        assign (\<lambda>v self. self\<lparr>Trip_geom := Some v\<rparr>)
          (\<lambda>self. bind_r (getitem api_data ''geometry'') (\<lambda>g.
           bind_r (getitem g ''coordinates'') (\<lambda>cs.
           bind_r (list_of_iter cs) LineString_init)))]"


text \<open>
  Calling the method with positional arguments: the signature
  \<^verbatim>\<open>set_from_api(self, api_data)\<close> accepts exactly one, and Python raises a
  \<^verbatim>\<open>TypeError\<close> before the body runs when it is given more or fewer. An argument that
  is a model instance and not a dict cannot be subscripted, which is a \<^verbatim>\<open>TypeError\<close>
  at the first statement that reads the payload, before any assignment.
\<close>

datatype pyarg = Payload json | RouteObj Route | StopObj Stop | TripObj Trip

definition Trip_set_from_api_call :: "pyarg list \<Rightarrow> Trip stmt" where
  "Trip_set_from_api_call args =
     (case args of
        [Payload api_data] \<Rightarrow> Trip_set_from_api api_data
      | _ \<Rightarrow> (\<lambda>self. (Some TypeError, self)))"

subsection \<open>\<^verbatim>\<open>TripStop\<close>\<close>

text \<open>
  \<^verbatim>\<open>time.gmtime\<close> hands its argument to the C library, which converts it to a
  \<^verbatim>\<open>time_t\<close> and to a calendar year that fits an \<^verbatim>\<open>int\<close>: it accepts a bounded range
  of seconds only and raises outside of it (a \<^verbatim>\<open>ValueError\<close> in Python 2, which the
  repository is written in). The bounds differ between platforms and are a parameter
  here: they are the seconds that \<^verbatim>\<open>gmtime\<close> accepts and takes as they are. Python 2
  passes the argument through a C double, which holds every integer up to \<open>2 ^ 53\<close> in
  magnitude, so that for Python 2 the bounds lie within that. \<open>time_t64\<close> is the widest range any platform can offer: all of a signed
  64-bit \<^verbatim>\<open>time_t\<close>.
\<close>

record platform =
  gmtime_min :: int
  gmtime_max :: int

definition time_t64 :: platform where
  "time_t64 = \<lparr>gmtime_min = - (2 ^ 63), gmtime_max = 2 ^ 63 - 1\<rparr>"

text \<open>Of the broken-down time, the three fields that the code reads.\<close>

record struct_time =
  tm_hour :: int
  tm_min :: int
  tm_sec :: int

text \<open>
  \<^verbatim>\<open>time.gmtime\<close> of Python's standard library renders seconds since the epoch as UTC
  calendar fields; the fields of the time of day are the POSIX ones, which know no leap
  seconds.
\<close>

definition gmtime :: "platform \<Rightarrow> int \<Rightarrow> error + struct_time" where
  "gmtime pf t =
     (if gmtime_min pf \<le> t \<and> t \<le> gmtime_max pf
      then Inr \<lparr>tm_hour = (t div 3600) mod 24, tm_min = (t div 60) mod 60, tm_sec = t mod 60\<rparr>
      else Inl ValueError)"

datatype time = Time (hour: int) (minute: int) (second: int)

text \<open>\<^verbatim>\<open>datetime.time(h, m, s)\<close> checks the range of each field.\<close>

definition datetime_time :: "int \<Rightarrow> int \<Rightarrow> int \<Rightarrow> error + time" where
  "datetime_time h m s =
     (if 0 \<le> h \<and> h < 24 \<and> 0 \<le> m \<and> m < 60 \<and> 0 \<le> s \<and> s < 60
      then Inr (Time h m s) else Inl ValueError)"

text \<open>
  A \<open>TripStop\<close> refers to its \<open>Trip\<close> by reference: the foreign key holds the very
  object the caller passed, which lives on the heap and may be shared. Its \<open>Stop\<close> is
  the instance that \<^verbatim>\<open>Stop.objects.get\<close> builds from the row of the stops table.
\<close>

type_synonym ref = nat

record TripStop =
  TripStop_created_at :: datetime
  TripStop_modified_at :: datetime
  trip :: "ref option"
  stop :: "Stop option"
  arrival_time :: "time option"
  departure_time :: "time option"
  stop_sequence :: "int option"

definition TripStop_new :: "datetime \<Rightarrow> TripStop" where
  "TripStop_new now =
     \<lparr>TripStop_created_at = now, TripStop_modified_at = now, trip = None, stop = None,
      arrival_time = None, departure_time = None, stop_sequence = None\<rparr>"

text \<open>
  What a call of \<^verbatim>\<open>TripStop.set_from_api\<close> can reach: the receiver, the \<open>Trip\<close>
  objects on the heap and the table behind \<^verbatim>\<open>Stop.objects\<close>, keyed by primary key.
\<close>

record world =
  receiver :: TripStop
  Trip_heap :: "ref \<Rightarrow> Trip option"
  Stop_objects :: "int \<Rightarrow> Stop option"

text \<open>
  Modelled from the spec: \<^verbatim>\<open>Stop.objects.get(id=n)\<close> of the persistence layer, which is
  missing from the sources. The spec has it return the record with that id, and fail
  with a not-found error if the id is unknown; Django names that error
  \<^verbatim>\<open>DoesNotExist\<close>.
\<close>

definition Stop_objects_get :: "world \<Rightarrow> int \<Rightarrow> error + Stop" where
  "Stop_objects_get w n =
     (case Stop_objects w n of None \<Rightarrow> Inl DoesNotExist | Some s \<Rightarrow> Inr s)"

text \<open>
  \<^verbatim>\<open>TripStop.set_from_api\<close>, lines 117 to 130. Lines 126 and 127, and again 128 and
  129, turn seconds into a time: \<^verbatim>\<open>int\<close>, \<^verbatim>\<open>time.gmtime\<close>, and \<^verbatim>\<open>datetime.time\<close>
  of the hour, minute and second.
\<close>

definition time_of_seconds :: "platform \<Rightarrow> json \<Rightarrow> error + time" where
  "time_of_seconds pf v =
     bind_r (py_int v) (\<lambda>n.
     bind_r (gmtime pf n) (\<lambda>tm. datetime_time (tm_hour tm) (tm_min tm) (tm_sec tm)))"

definition TripStop_set_from_api :: "platform \<Rightarrow> json \<Rightarrow> ref \<Rightarrow> world stmt" where
  "TripStop_set_from_api pf api_data trip_ref =
     block
       [assign (\<lambda>v w. w\<lparr>receiver := (receiver w)\<lparr>trip := Some v\<rparr>\<rparr>)
          (\<lambda>w. Inr trip_ref),
        assign (\<lambda>v w. w\<lparr>receiver := (receiver w)\<lparr>stop := Some v\<rparr>\<rparr>)
          (\<lambda>w. bind_r (getitem api_data ''stop'') (\<lambda>st.
                bind_r (getitem st ''stop_id'') (\<lambda>sid.
                bind_r (py_int sid) (Stop_objects_get w)))),
        assign (\<lambda>v w. w\<lparr>receiver := (receiver w)\<lparr>arrival_time := Some v\<rparr>\<rparr>)
          (\<lambda>w. bind_r (getitem api_data ''arrival_time'') (time_of_seconds pf)),
        assign (\<lambda>v w. w\<lparr>receiver := (receiver w)\<lparr>departure_time := Some v\<rparr>\<rparr>)
          (\<lambda>w. bind_r (getitem api_data ''departure_time'') (time_of_seconds pf)),
        assign (\<lambda>v w. w\<lparr>receiver := (receiver w)\<lparr>stop_sequence := Some v\<rparr>\<rparr>)
          (\<lambda>w. bind_r (getitem api_data ''stop_sequence'') py_int)]"

section \<open>The payloads of \<^verbatim>\<open>stops/tests.py\<close>\<close>

definition test_stop_data :: json where
  "test_stop_data =
     JObj [(''stop_id'', JStr ''1884''),
           (''stop_code'', JStr ''21884''),
           (''stop_name'', JStr ''EAST WEST HWY & CONNECTICUT AVE''),
           (''stop_lat'', JFloat 38.987993),
           (''stop_lon'', JFloat (-77.076255)),
           (''zone_id'', JNull),
           (''stop_url'', JNull),
           (''location_type'', JNull),
           (''parent_station'', JNull),
           (''uri'', JStr ''/stops/21884''),
           (''geometry'', JObj [(''type'', JStr ''Point''),
                                (''coordinates'', JList [JFloat (-77.076255), JFloat 38.987993])])]"

definition test_route_data :: json where
  "test_route_data =
     JObj [(''route_id'', JStr ''2777''),
           (''agency_id'', JStr ''MCRO''),
           (''route_short_name'', JStr '' 44''),
           (''route_long_name'', JStr ''Twinbrook-Rockville''),
           (''route_desc'', JNull),
           (''route_type'', JInt 3),
           (''route_url'', JNull),
           (''route_color'', JStr ''0000FF''),
           (''route_text_color'', JStr ''FFFFFF''),
           (''uri'', JStr ''/routes/2777'')]"

definition test_trip_coordinates :: "(real \<times> real) list" where
  "test_trip_coordinates =
     [(-77.147223, 39.084786), (-77.1473, 39.084788), (-77.14736, 39.084778),
      (-77.147406, 39.084755)]"

text \<open>A coordinate pair as it stands in a payload: \<^verbatim>\<open>[lon, lat]\<close>.\<close>

definition coord_json :: "real \<times> real \<Rightarrow> json" where
  "coord_json p = JList [JFloat (fst p), JFloat (snd p)]"

definition test_trip_fields :: "(string \<times> json) list" where
  "test_trip_fields =
     [(''trip_id'', JStr ''425677''),
      (''trip_headsign'', JStr ''Twinbrook''),
      (''trip_short_name'', JStr ''425677''),
      (''shape_id'', JStr ''425677''),
      (''service_id'', JStr ''425677''),
      (''direction_id'', JStr ''425677''),
      (''start_time'', JStr ''425677''),
      (''end_time'', JStr ''425677''),
      (''first_stop_name'', JStr ''425677''),
      (''last_stop_name'', JStr ''425677''),
      (''uri'', JStr ''/trips/425677''),
      (''geometry'', JObj [(''type'', JStr ''LineString''),
                           (''coordinates'', JList (map coord_json test_trip_coordinates))])]"

definition test_trip_data :: json where
  "test_trip_data = JObj test_trip_fields"

text \<open>
  The payload of \<^verbatim>\<open>test_trip_stop\<close>, and the same with the \<^verbatim>\<open>stop\<close> entry that the
  example at the bottom of \<^verbatim>\<open>models.py\<close> has and that line 125 reads.
\<close>

definition test_trip_stop_data :: json where
  "test_trip_stop_data =
     JObj [(''arrival_time'', JInt 67504),
           (''departure_time'', JInt 67707),
           (''stop_sequence'', JInt 2)]"

definition trip_stop_data_with_stop :: json where
  "trip_stop_data_with_stop =
     JObj [(''arrival_time'', JInt 67504),
           (''departure_time'', JInt 67707),
           (''stop_sequence'', JInt 2),
           (''stop'', JObj [(''stop_name'', JStr ''MONROE ST & MONROE PL''),
                            (''stop_code'', JStr ''24150''),
                            (''stop_id'', JStr ''4150''),
                            (''uri'', JStr ''/stops/4150'')])]"

text \<open>
  A world for the example: the stop 4150 is in the table, the trip 425677 is the object
  at reference 0, and the receiver is a fresh \<^verbatim>\<open>TripStop()\<close>. The last payload asks
  for an arrival \<open>2 ^ 63\<close> seconds after the epoch.
\<close>

definition example_stop :: Stop where
  "example_stop = (Stop_new 0)\<lparr>Stop_id := Some 4150\<rparr>"

definition example_world :: world where
  "example_world =
     \<lparr>receiver = TripStop_new 0,
      Trip_heap = [0 \<mapsto> (Trip_new 0)\<lparr>Trip_id := Some 425677\<rparr>],
      Stop_objects = [4150 \<mapsto> example_stop]\<rparr>"


text \<open>
  Further payloads: the trip of the specification's two-point example, a trip whose
  coordinates are integers, a trip with a single coordinate pair, a route whose colour
  is the empty string, a route without the key \<^verbatim>\<open>route_desc\<close>, and a stop whose name
  has 301 characters.
\<close>

definition two_point_trip_data :: json where
  "two_point_trip_data =
     JObj [(''trip_id'', JStr ''425677''),
           (''trip_headsign'', JStr ''Twinbrook''),
           (''geometry'', JObj [(''type'', JStr ''LineString''),
                                (''coordinates'',
                                 JList [JList [JFloat (-77.147223), JFloat 39.084786],
                                        JList [JFloat (-77.1473), JFloat 39.084788]])])]"

definition integer_trip_data :: json where
  "integer_trip_data =
     JObj [(''trip_id'', JStr ''425677''),
           (''trip_headsign'', JStr ''Twinbrook''),
           (''geometry'', JObj [(''type'', JStr ''LineString''),
                                (''coordinates'',
                                 JList [JList [JInt (-77), JInt 39],
                                        JList [JInt (-78), JInt 40]])])]"

definition one_point_trip_data :: json where
  "one_point_trip_data =
     JObj [(''trip_id'', JStr ''425677''),
           (''trip_headsign'', JStr ''Twinbrook''),
           (''geometry'', JObj [(''type'', JStr ''LineString''),
                                (''coordinates'',
                                 JList [JList [JFloat (-77.147223), JFloat 39.084786]])])]"



definition long_name_stop_data :: json where
  "long_name_stop_data =
     JObj [(''stop_id'', JStr ''1884''),
           (''stop_code'', JStr ''21884''),
           (''stop_name'', JStr (replicate 301 (CHR ''A''))),
           (''stop_lat'', JFloat 38.987993),
           (''stop_lon'', JFloat (-77.076255))]"

section \<open>The specification's time of day\<close>

text \<open>
  The wall-clock time as the specification words it: the seconds are reduced modulo
  86400, and the remainder is decomposed into hour, minute and second.
\<close>

definition time_of_day_spec :: "int \<Rightarrow> time" where
  "time_of_day_spec t =
     (let r = t mod 86400 in Time (r div 3600) ((r mod 3600) div 60) (r mod 60))"

section \<open>Evaluation and helper facts\<close>

lemmas int_simps =
  py_int_def int_literal_def strip_def is_space_def unsigned_literal_def is_digit_def

lemmas stmt_simps = if_raise_def assign_def bind_r_def getitem_def slice300_def



lemma list_of_iter_JList: "list_of_iter (JList xs) = Inr xs"
  by (simp add: list_of_iter_def)

lemma coord_pairs_coord_json: "coord_pairs (map coord_json ps) = Some ps"
  by (induction ps) (simp_all add: coord_pair_def coord_json_def number_def)

lemma LineString_init_pairs:
  "LineString_init (map coord_json ps) =
     (if length ps < 2 then Inl TypeError else Inr (LineString ps))"
  by (simp add: LineString_init_def coord_pairs_coord_json)

lemma coord_pairs_length: "coord_pairs cs = Some ps \<Longrightarrow> length ps = length cs"
  by (induction cs arbitrary: ps) (auto split: option.splits)

lemma LineString_init_coord_pairs:
  "coord_pairs cs = Some ps \<Longrightarrow>
   LineString_init cs = (if length cs < 2 then Inl TypeError else Inr (LineString ps))"
  by (simp add: LineString_init_def coord_pairs_length)

lemmas Trip_steps = Trip_set_from_api_def if_raise_def assign_def bind_r_def

lemma length_test_trip_coordinates: "length test_trip_coordinates = 4"
  by (simp add: test_trip_coordinates_def)

text \<open>
  The POSIX fields of the time of day are the specification's decomposition of the
  seconds modulo 86400.
\<close>

lemma hour_of_day: "(t div 3600) mod 24 = (t mod 86400) div 3600" for t :: int
proof -
  have "t mod 86400 = t mod (3600 * 24)" by simp
  also have "\<dots> = 3600 * ((t div 3600) mod 24) + t mod 3600"
    by (rule zmod_zmult2_eq) simp
  finally show ?thesis by simp
qed

lemma minute_of_day: "(t div 60) mod 60 = ((t mod 86400) mod 3600) div 60" for t :: int
proof -
  have "(t mod 86400) mod 3600 = t mod 3600"
    by (rule mod_mod_cancel) simp
  also have "\<dots> = t mod (60 * 60)" by simp
  also have "\<dots> = 60 * ((t div 60) mod 60) + t mod 60"
    by (rule zmod_zmult2_eq) simp
  finally show ?thesis by simp
qed

lemma second_of_day: "t mod 60 = (t mod 86400) mod 60" for t :: int
  by (rule mod_mod_cancel [symmetric]) simp

lemma time_of_day_spec_posix:
  "time_of_day_spec t = Time ((t div 3600) mod 24) ((t div 60) mod 60) (t mod 60)"
  unfolding time_of_day_spec_def Let_def hour_of_day minute_of_day
  using second_of_day [of t] by simp

lemma datetime_time_posix:
  "datetime_time ((t div 3600) mod 24) ((t div 60) mod 60) (t mod 60)
     = Inr (Time ((t div 3600) mod 24) ((t div 60) mod 60) (t mod 60))"
  by (simp add: datetime_time_def)

lemma time_of_seconds_in_range:
  "py_int v = Inr t \<Longrightarrow> gmtime_min pf \<le> t \<Longrightarrow> t \<le> gmtime_max pf \<Longrightarrow>
   time_of_seconds pf v = Inr (time_of_day_spec t)"
  by (simp add: time_of_seconds_def bind_r_def gmtime_def datetime_time_posix
      time_of_day_spec_posix)









section \<open>Identity of a record\<close>

text \<open>
  C1. A \<open>Stop\<close> or \<open>Route\<close> that already has an id, populated from a payload whose
  \<^verbatim>\<open>stop_id\<close> (\<^verbatim>\<open>route_id\<close>) is present and converts with \<^verbatim>\<open>int\<close> to a different
  integer: \<^verbatim>\<open>set_from_api\<close> raises the identity-mismatch error, and the record it
  leaves behind is the record it was given, every field included.
\<close>

theorem identity_mismatch_unmodified:
  "(Stop_id s = Some i \<longrightarrow> getitem api_data ''stop_id'' = Inr v \<longrightarrow> py_int v = Inr j
      \<longrightarrow> j \<noteq> i \<longrightarrow> Stop_set_from_api api_data s = (Some IdentityMismatch, s))
   \<and> (Route_id r = Some i' \<longrightarrow> getitem api_data' ''route_id'' = Inr v'
      \<longrightarrow> py_int v' = Inr j' \<longrightarrow> j' \<noteq> i'
      \<longrightarrow> Route_set_from_api api_data' r = (Some IdentityMismatch, r))"
  by (simp add: Stop_set_from_api_def Route_set_from_api_def if_raise_def bind_r_def)

text \<open>
  The stop and the route of the tests, applied to records that carry the ids 25662
  and 1.
\<close>

theorem identity_mismatch_unmodified_witness:
  "Stop_set_from_api test_stop_data ((Stop_new 0)\<lparr>Stop_id := Some 25662\<rparr>)
     = (Some IdentityMismatch, (Stop_new 0)\<lparr>Stop_id := Some 25662\<rparr>)
   \<and> Route_set_from_api test_route_data ((Route_new 0)\<lparr>Route_id := Some 1\<rparr>)
     = (Some IdentityMismatch, (Route_new 0)\<lparr>Route_id := Some 1\<rparr>)"
  using identity_mismatch_unmodified
    [of "(Stop_new 0)\<lparr>Stop_id := Some 25662\<rparr>" 25662 test_stop_data "JStr ''1884''" 1884
        "(Route_new 0)\<lparr>Route_id := Some 1\<rparr>" 1 test_route_data "JStr ''2777''" 2777]
  by (simp add: test_stop_data_def test_route_data_def getitem_def int_simps
      Stop_new_def Route_new_def)

text \<open>
  C2. On the payload of \<^verbatim>\<open>test_stop\<close> and a fresh \<^verbatim>\<open>Stop()\<close>, \<^verbatim>\<open>set_from_api\<close>
  succeeds and sets the stop code 21884, the name as given and the point
  (-77.076255, 38.987993), longitude first; the id, however, is still \<^verbatim>\<open>None\<close> and not
  1884. No call of \<^verbatim>\<open>Stop.set_from_api\<close> changes the id of its record.
\<close>

theorem Stop_set_from_api_leaves_id:
  "Stop_set_from_api test_stop_data (Stop_new now)
     = (None, \<lparr>Stop_created_at = now, Stop_modified_at = now, Stop_id = None,
          stop_code = Some 21884, stop_name = JStr ''EAST WEST HWY & CONNECTICUT AVE'',
          Stop_geom = Some (Point (-77.076255) 38.987993)\<rparr>)
   \<and> Stop_id (snd (Stop_set_from_api api_data s)) = Stop_id s"
proof
  show "Stop_set_from_api test_stop_data (Stop_new now)
     = (None, \<lparr>Stop_created_at = now, Stop_modified_at = now, Stop_id = None,
          stop_code = Some 21884, stop_name = JStr ''EAST WEST HWY & CONNECTICUT AVE'',
          Stop_geom = Some (Point (-77.076255) 38.987993)\<rparr>)"
    by (simp add: Stop_set_from_api_def test_stop_data_def Stop_new_def stmt_simps int_simps
        Point_init_def number_def)
  show "Stop_id (snd (Stop_set_from_api api_data s)) = Stop_id s"
    by (simp add: Stop_set_from_api_def if_raise_def assign_def
        split: sum.splits option.splits)
qed

text \<open>
  C3. The identity check of \<^verbatim>\<open>Trip.set_from_api\<close> reads \<^verbatim>\<open>route_id\<close>, not
  \<^verbatim>\<open>trip_id\<close>. The trip 425677 populated from a payload with its own
  \<^verbatim>\<open>trip_id\<close> 425677 and the \<^verbatim>\<open>route_id\<close> 2777 is refused; the trip 2777 populated
  from that payload, whose \<^verbatim>\<open>trip_id\<close> differs from it, is accepted; and the payload
  of \<^verbatim>\<open>test_trip\<close>, which has no \<^verbatim>\<open>route_id\<close>, is a \<^verbatim>\<open>KeyError\<close> for any trip that
  has an id.
\<close>

theorem Trip_identity_check_reads_route_id:
  "Trip_set_from_api (JObj ((''route_id'', JStr ''2777'') # test_trip_fields))
      ((Trip_new now)\<lparr>Trip_id := Some 425677\<rparr>)
     = (Some IdentityMismatch, (Trip_new now)\<lparr>Trip_id := Some 425677\<rparr>)
   \<and> fst (Trip_set_from_api (JObj ((''route_id'', JStr ''2777'') # test_trip_fields))
      ((Trip_new now)\<lparr>Trip_id := Some 2777\<rparr>)) = None
   \<and> Trip_set_from_api test_trip_data ((Trip_new now)\<lparr>Trip_id := Some 425677\<rparr>)
     = (Some KeyError, (Trip_new now)\<lparr>Trip_id := Some 425677\<rparr>)"
  by (simp add: Trip_set_from_api_def test_trip_data_def test_trip_fields_def Trip_new_def
      stmt_simps int_simps list_of_iter_def LineString_init_pairs
      length_test_trip_coordinates)

text \<open>
  C4. \<^verbatim>\<open>Trip.set_from_api\<close> has no parameter for a route and \<open>Trip\<close> has no field for
  one. The call of \<^verbatim>\<open>test_trip\<close>, which passes the payload and a \<open>Route\<close>, raises a
  \<^verbatim>\<open>TypeError\<close> and leaves the trip as it was.
\<close>

theorem Trip_set_from_api_rejects_route_argument:
  "Trip_set_from_api_call
     [Payload test_trip_data, RouteObj ((Route_new now)\<lparr>Route_id := Some 1\<rparr>)] (Trip_new now)
   = (Some TypeError, Trip_new now)"
  by (simp add: Trip_set_from_api_call_def)

section \<open>Times of a trip stop\<close>




section \<open>The path of a trip\<close>

text \<open>
  In what follows \<^verbatim>\<open>geometry.coordinates\<close> of a trip payload is a list \<open>cs\<close> of
  coordinate pairs: each element is a list of two numbers, integers or decimals, and
  \<open>ps\<close> are the pairs of their values.

  C6. If \<^verbatim>\<open>Trip.set_from_api\<close> succeeds, the path of the trip has exactly the points
  \<open>ps\<close>, as many as the payload has pairs and in their order, and there are at least two
  of them. It does succeed, with that path, on every trip without id and every payload
  whose headsign is a string and whose list has two pairs or more.
\<close>

theorem trip_path_keeps_coordinates:
  assumes "getitem api_data ''geometry'' = Inr g"
    and "getitem g ''coordinates'' = Inr (JList cs)"
    and "coord_pairs cs = Some ps"
  shows "(Trip_set_from_api api_data t = (None, t') \<longrightarrow>
            Trip_geom t' = Some (LineString ps) \<and> 2 \<le> length cs)
       \<and> (2 \<le> length cs \<longrightarrow> Trip_id t = None
            \<longrightarrow> getitem api_data ''trip_headsign'' = Inr (JStr h)
            \<longrightarrow> Trip_set_from_api api_data t
                  = (None, t\<lparr>trip_headsign := JStr (take 300 h),
                        Trip_geom := Some (LineString ps)\<rparr>))
       \<and> length ps = length cs"
proof (intro conjI impI)
  assume "Trip_set_from_api api_data t = (None, t')"
  with assms show "Trip_geom t' = Some (LineString ps)"
    by (auto simp add: Trip_steps list_of_iter_JList LineString_init_coord_pairs
        split: sum.splits if_splits option.splits)
next
  assume "Trip_set_from_api api_data t = (None, t')"
  with assms show "2 \<le> length cs"
    by (auto simp add: Trip_steps list_of_iter_JList LineString_init_coord_pairs
        split: sum.splits if_splits option.splits)
next
  assume "2 \<le> length cs" "Trip_id t = None"
    "getitem api_data ''trip_headsign'' = Inr (JStr h)"
  with assms show "Trip_set_from_api api_data t
      = (None, t\<lparr>trip_headsign := JStr (take 300 h), Trip_geom := Some (LineString ps)\<rparr>)"
    by (simp add: Trip_steps slice300_def list_of_iter_JList LineString_init_coord_pairs)
next
  from assms(3) show "length ps = length cs" by (rule coord_pairs_length)
qed

text \<open>
  The specification's example, the coordinates
  \<^verbatim>\<open>[[-77.147223,39.084786],[-77.1473,39.084788]]\<close>, and the integer coordinates
  \<^verbatim>\<open>[[-77,39],[-78,40]]\<close>, each on a fresh trip.
\<close>

theorem trip_path_keeps_coordinates_witness:
  "Trip_set_from_api two_point_trip_data (Trip_new 0)
     = (None, (Trip_new 0)\<lparr>trip_headsign := JStr ''Twinbrook'',
          Trip_geom := Some (LineString [(-77.147223, 39.084786), (-77.1473, 39.084788)])\<rparr>)
   \<and> Trip_set_from_api integer_trip_data (Trip_new 0)
     = (None, (Trip_new 0)\<lparr>trip_headsign := JStr ''Twinbrook'',
          Trip_geom := Some (LineString [(-77, 39), (-78, 40)])\<rparr>)"
proof
  let ?cs = "[JList [JFloat (-77.147223), JFloat 39.084786],
              JList [JFloat (-77.1473), JFloat 39.084788]]"
  let ?g = "JObj [(''type'', JStr ''LineString''), (''coordinates'', JList ?cs)]"
  have g1: "getitem two_point_trip_data ''geometry'' = Inr ?g"
    by (simp add: two_point_trip_data_def getitem_def)
  have g2: "getitem ?g ''coordinates'' = Inr (JList ?cs)"
    by (simp add: getitem_def)
  have g3: "coord_pairs ?cs = Some [(-77.147223, 39.084786), (-77.1473, 39.084788)]"
    by (simp add: coord_pair_def number_def)
  have h: "getitem two_point_trip_data ''trip_headsign'' = Inr (JStr ''Twinbrook'')"
    by (simp add: two_point_trip_data_def getitem_def)
  from trip_path_keeps_coordinates [OF g1 g2 g3, of "Trip_new 0" _ "''Twinbrook''"] h
  show "Trip_set_from_api two_point_trip_data (Trip_new 0)
     = (None, (Trip_new 0)\<lparr>trip_headsign := JStr ''Twinbrook'',
          Trip_geom := Some (LineString [(-77.147223, 39.084786), (-77.1473, 39.084788)])\<rparr>)"
    by (simp add: Trip_new_def)
next
  let ?cs = "[JList [JInt (-77), JInt 39], JList [JInt (-78), JInt 40]]"
  let ?g = "JObj [(''type'', JStr ''LineString''), (''coordinates'', JList ?cs)]"
  have g1: "getitem integer_trip_data ''geometry'' = Inr ?g"
    by (simp add: integer_trip_data_def getitem_def)
  have g2: "getitem ?g ''coordinates'' = Inr (JList ?cs)"
    by (simp add: getitem_def)
  have g3: "coord_pairs ?cs = Some [(-77, 39), (-78, 40)]"
    by (simp add: coord_pair_def number_def)
  have h: "getitem integer_trip_data ''trip_headsign'' = Inr (JStr ''Twinbrook'')"
    by (simp add: integer_trip_data_def getitem_def)
  from trip_path_keeps_coordinates [OF g1 g2 g3, of "Trip_new 0" _ "''Twinbrook''"] h
  show "Trip_set_from_api integer_trip_data (Trip_new 0)
     = (None, (Trip_new 0)\<lparr>trip_headsign := JStr ''Twinbrook'',
          Trip_geom := Some (LineString [(-77, 39), (-78, 40)])\<rparr>)"
    by (simp add: Trip_new_def)
qed

text \<open>
  C7. With fewer than two pairs, \<^verbatim>\<open>Trip.set_from_api\<close> fails and assigns no path;
  when the statements before the path succeed (a trip without id, a headsign that is a
  string), the failure is the one of the path's construction and comes after the
  headsign has been assigned. With two pairs or more, the same call succeeds.
\<close>

theorem trip_path_needs_two_points:
  assumes "getitem api_data ''geometry'' = Inr g"
    and "getitem g ''coordinates'' = Inr (JList cs)"
    and "coord_pairs cs = Some ps"
  shows "(length cs < 2 \<longrightarrow>
            fst (Trip_set_from_api api_data t) \<noteq> None
          \<and> Trip_geom (snd (Trip_set_from_api api_data t)) = Trip_geom t)
       \<and> (length cs < 2 \<longrightarrow> Trip_id t = None
            \<longrightarrow> getitem api_data ''trip_headsign'' = Inr (JStr h)
            \<longrightarrow> Trip_set_from_api api_data t
                  = (Some TypeError, t\<lparr>trip_headsign := JStr (take 300 h)\<rparr>))
       \<and> (2 \<le> length cs \<longrightarrow> Trip_id t = None
            \<longrightarrow> getitem api_data ''trip_headsign'' = Inr (JStr h)
            \<longrightarrow> Trip_set_from_api api_data t
                  = (None, t\<lparr>trip_headsign := JStr (take 300 h),
                        Trip_geom := Some (LineString ps)\<rparr>))"
proof (intro conjI impI)
  assume "length cs < 2"
  with assms show "fst (Trip_set_from_api api_data t) \<noteq> None"
    by (auto simp add: Trip_steps list_of_iter_JList LineString_init_coord_pairs
        split: sum.splits if_splits option.splits)
next
  assume "length cs < 2"
  with assms show "Trip_geom (snd (Trip_set_from_api api_data t)) = Trip_geom t"
    by (auto simp add: Trip_steps list_of_iter_JList LineString_init_coord_pairs
        split: sum.splits if_splits option.splits)
next
  assume "length cs < 2" "Trip_id t = None"
    "getitem api_data ''trip_headsign'' = Inr (JStr h)"
  with assms show "Trip_set_from_api api_data t
      = (Some TypeError, t\<lparr>trip_headsign := JStr (take 300 h)\<rparr>)"
    by (simp add: Trip_steps slice300_def list_of_iter_JList LineString_init_coord_pairs)
next
  assume "2 \<le> length cs" "Trip_id t = None"
    "getitem api_data ''trip_headsign'' = Inr (JStr h)"
  with assms show "Trip_set_from_api api_data t
      = (None, t\<lparr>trip_headsign := JStr (take 300 h), Trip_geom := Some (LineString ps)\<rparr>)"
    by (simp add: Trip_steps slice300_def list_of_iter_JList LineString_init_coord_pairs)
qed

text \<open>
  A single coordinate pair fails after the headsign has been assigned; the four pairs of
  \<^verbatim>\<open>test_trip\<close> and the two integer pairs give a path.
\<close>

theorem trip_path_needs_two_points_witness:
  "Trip_set_from_api one_point_trip_data (Trip_new 0)
     = (Some TypeError, (Trip_new 0)\<lparr>trip_headsign := JStr ''Twinbrook''\<rparr>)
   \<and> Trip_set_from_api test_trip_data (Trip_new 0)
     = (None, (Trip_new 0)\<lparr>trip_headsign := JStr ''Twinbrook'',
          Trip_geom := Some (LineString test_trip_coordinates)\<rparr>)
   \<and> Trip_set_from_api integer_trip_data (Trip_new 0)
     = (None, (Trip_new 0)\<lparr>trip_headsign := JStr ''Twinbrook'',
          Trip_geom := Some (LineString [(-77, 39), (-78, 40)])\<rparr>)"
proof (intro conjI)
  let ?cs = "[JList [JFloat (-77.147223), JFloat 39.084786]]"
  let ?g = "JObj [(''type'', JStr ''LineString''), (''coordinates'', JList ?cs)]"
  have a1: "getitem one_point_trip_data ''geometry'' = Inr ?g"
    by (simp add: one_point_trip_data_def getitem_def)
  have a2: "getitem ?g ''coordinates'' = Inr (JList ?cs)"
    by (simp add: getitem_def)
  have a3: "coord_pairs ?cs = Some [(-77.147223, 39.084786)]"
    by (simp add: coord_pair_def number_def)
  have a4: "getitem one_point_trip_data ''trip_headsign'' = Inr (JStr ''Twinbrook'')"
    by (simp add: one_point_trip_data_def getitem_def)
  from trip_path_needs_two_points [OF a1 a2 a3, of "Trip_new 0" "''Twinbrook''"] a4
  show "Trip_set_from_api one_point_trip_data (Trip_new 0)
     = (Some TypeError, (Trip_new 0)\<lparr>trip_headsign := JStr ''Twinbrook''\<rparr>)"
    by (simp add: Trip_new_def)
next
  let ?cs = "map coord_json test_trip_coordinates"
  let ?g = "JObj [(''type'', JStr ''LineString''), (''coordinates'', JList ?cs)]"
  have b1: "getitem test_trip_data ''geometry'' = Inr ?g"
    by (simp add: test_trip_data_def test_trip_fields_def getitem_def)
  have b2: "getitem ?g ''coordinates'' = Inr (JList ?cs)"
    by (simp add: getitem_def)
  have b3: "coord_pairs ?cs = Some test_trip_coordinates"
    by (rule coord_pairs_coord_json)
  have b4: "getitem test_trip_data ''trip_headsign'' = Inr (JStr ''Twinbrook'')"
    by (simp add: test_trip_data_def test_trip_fields_def getitem_def)
  from trip_path_needs_two_points [OF b1 b2 b3, of "Trip_new 0" "''Twinbrook''"] b4
  show "Trip_set_from_api test_trip_data (Trip_new 0)
     = (None, (Trip_new 0)\<lparr>trip_headsign := JStr ''Twinbrook'',
          Trip_geom := Some (LineString test_trip_coordinates)\<rparr>)"
    by (simp add: Trip_new_def length_test_trip_coordinates)
next
  let ?cs = "[JList [JInt (-77), JInt 39], JList [JInt (-78), JInt 40]]"
  let ?g = "JObj [(''type'', JStr ''LineString''), (''coordinates'', JList ?cs)]"
  have c1: "getitem integer_trip_data ''geometry'' = Inr ?g"
    by (simp add: integer_trip_data_def getitem_def)
  have c2: "getitem ?g ''coordinates'' = Inr (JList ?cs)"
    by (simp add: getitem_def)
  have c3: "coord_pairs ?cs = Some [(-77, 39), (-78, 40)]"
    by (simp add: coord_pair_def number_def)
  have c4: "getitem integer_trip_data ''trip_headsign'' = Inr (JStr ''Twinbrook'')"
    by (simp add: integer_trip_data_def getitem_def)
  from trip_path_needs_two_points [OF c1 c2 c3, of "Trip_new 0" "''Twinbrook''"] c4
  show "Trip_set_from_api integer_trip_data (Trip_new 0)
     = (None, (Trip_new 0)\<lparr>trip_headsign := JStr ''Twinbrook'',
          Trip_geom := Some (LineString [(-77, 39), (-78, 40)])\<rparr>)"
    by (simp add: Trip_new_def)
qed

section \<open>Optional fields of a route\<close>




section \<open>The name of a stop\<close>

text \<open>
  C9. Let a stop payload hold a stop code that converts with \<^verbatim>\<open>int\<close>, a name that
  is a string and a numeric longitude and latitude, and let the record have no id, or
  the id of the payload. Then \<^verbatim>\<open>Stop.set_from_api\<close> succeeds, whatever the length of
  the name, and stores the first 300 characters of the name: exactly 300 characters
  when the name is longer than that, and the whole name when it is not.
\<close>

theorem stop_name_truncated:
  assumes "Stop_id s = None
           \<or> (getitem api_data ''stop_id'' = Inr v \<and> py_int v = Inr i \<and> Stop_id s = Some i)"
    and "getitem api_data ''stop_code'' = Inr c" and "py_int c = Inr n"
    and "getitem api_data ''stop_name'' = Inr (JStr nm)"
    and "getitem api_data ''stop_lon'' = Inr x" and "getitem api_data ''stop_lat'' = Inr y"
    and "number x = Some a" and "number y = Some b"
  shows "Stop_set_from_api api_data s
           = (None, s\<lparr>stop_code := Some n, stop_name := JStr (take 300 nm),
                       Stop_geom := Some (Point a b)\<rparr>)
       \<and> (300 < length nm \<longrightarrow> length (take 300 nm) = 300)
       \<and> (length nm \<le> 300 \<longrightarrow> take 300 nm = nm)"
  using assms
  by (auto simp add: Stop_set_from_api_def if_raise_def assign_def bind_r_def slice300_def
      Point_init_def)

text \<open>
  A name of 301 characters on a fresh stop, and the payload of \<^verbatim>\<open>test_stop\<close> on the
  stop 1884.
\<close>

theorem stop_name_truncated_witness:
  "Stop_set_from_api long_name_stop_data (Stop_new 0)
     = (None, (Stop_new 0)\<lparr>stop_code := Some 21884,
          stop_name := JStr (replicate 300 (CHR ''A'')),
          Stop_geom := Some (Point (-77.076255) 38.987993)\<rparr>)
   \<and> Stop_set_from_api test_stop_data ((Stop_new 0)\<lparr>Stop_id := Some 1884\<rparr>)
     = (None, (Stop_new 0)\<lparr>Stop_id := Some 1884, stop_code := Some 21884,
          stop_name := JStr ''EAST WEST HWY & CONNECTICUT AVE'',
          Stop_geom := Some (Point (-77.076255) 38.987993)\<rparr>)"
proof
  show "Stop_set_from_api long_name_stop_data (Stop_new 0)
     = (None, (Stop_new 0)\<lparr>stop_code := Some 21884,
          stop_name := JStr (replicate 300 (CHR ''A'')),
          Stop_geom := Some (Point (-77.076255) 38.987993)\<rparr>)"
    using stop_name_truncated [of "Stop_new 0" long_name_stop_data "JStr ''1884''" 1884
        "JStr ''21884''" 21884 "replicate 301 (CHR ''A'')" "JFloat (-77.076255)"
        "JFloat 38.987993" "-77.076255" "38.987993"]
    by (simp add: long_name_stop_data_def getitem_def int_simps Stop_new_def number_def)
  show "Stop_set_from_api test_stop_data ((Stop_new 0)\<lparr>Stop_id := Some 1884\<rparr>)
     = (None, (Stop_new 0)\<lparr>Stop_id := Some 1884, stop_code := Some 21884,
          stop_name := JStr ''EAST WEST HWY & CONNECTICUT AVE'',
          Stop_geom := Some (Point (-77.076255) 38.987993)\<rparr>)"
    using stop_name_truncated [of "(Stop_new 0)\<lparr>Stop_id := Some 1884\<rparr>" test_stop_data
        "JStr ''1884''" 1884 "JStr ''21884''" 21884 "''EAST WEST HWY & CONNECTICUT AVE''"
        "JFloat (-77.076255)" "JFloat 38.987993" "-77.076255" "38.987993"]
    by (simp add: test_stop_data_def getitem_def int_simps Stop_new_def number_def)
qed

section \<open>What a trip stop's population touches\<close>

text \<open>
  C10. Whatever the outcome of \<^verbatim>\<open>TripStop.set_from_api\<close>, the world it leaves differs
  from the one it found in at most five fields of the receiver: \<open>trip\<close>, \<open>stop\<close>,
  \<open>arrival_time\<close>, \<open>departure_time\<close> and \<open>stop_sequence\<close>. The receiver's timestamps,
  every \<open>Trip\<close> object of the heap (the one passed among them) and the table of stops
  are as before. When the call succeeds, all five fields are assigned: the trip is the
  reference passed, and the stop is a row of the table, as it stands there.
\<close>

theorem trip_stop_frame:
  assumes "TripStop_set_from_api pf api_data tr w = (e, w')"
  shows "w' = w\<lparr>receiver := (receiver w)
               \<lparr>trip := trip (receiver w'), stop := stop (receiver w'),
                arrival_time := arrival_time (receiver w'),
                departure_time := departure_time (receiver w'),
                stop_sequence := stop_sequence (receiver w')\<rparr>\<rparr>
       \<and> TripStop_created_at (receiver w') = TripStop_created_at (receiver w)
       \<and> TripStop_modified_at (receiver w') = TripStop_modified_at (receiver w)
       \<and> Trip_heap w' = Trip_heap w
       \<and> Stop_objects w' = Stop_objects w
       \<and> (e = None \<longrightarrow>
            trip (receiver w') = Some tr
          \<and> (\<exists>n s. Stop_objects w n = Some s \<and> stop (receiver w') = Some s)
          \<and> arrival_time (receiver w') \<noteq> None
          \<and> departure_time (receiver w') \<noteq> None
          \<and> stop_sequence (receiver w') \<noteq> None)"
  using assms
  by (auto simp add: TripStop_set_from_api_def assign_def bind_r_def Stop_objects_get_def
      split: sum.splits option.splits)

text \<open>The example of \<^verbatim>\<open>models.py\<close> in the example world.\<close>

theorem trip_stop_frame_witness:
  "fst (TripStop_set_from_api time_t64 trip_stop_data_with_stop 0 example_world) = None
   \<and> trip (receiver (snd (TripStop_set_from_api time_t64 trip_stop_data_with_stop 0
        example_world))) = Some 0
   \<and> Trip_heap (snd (TripStop_set_from_api time_t64 trip_stop_data_with_stop 0 example_world))
       = Trip_heap example_world
   \<and> Stop_objects (snd (TripStop_set_from_api time_t64 trip_stop_data_with_stop 0
        example_world)) = Stop_objects example_world
   \<and> TripStop_created_at (receiver (snd (TripStop_set_from_api time_t64
        trip_stop_data_with_stop 0 example_world))) = 0"
proof -
  obtain e w' where r:
    "TripStop_set_from_api time_t64 trip_stop_data_with_stop 0 example_world = (e, w')"
    by (cases "TripStop_set_from_api time_t64 trip_stop_data_with_stop 0 example_world")
  have "time_of_seconds time_t64 (JInt 67504) = Inr (time_of_day_spec 67504)"
    by (rule time_of_seconds_in_range [of _ 67504]) (simp_all add: py_int_def time_t64_def)
  moreover have "time_of_seconds time_t64 (JInt 67707) = Inr (time_of_day_spec 67707)"
    by (rule time_of_seconds_in_range [of _ 67707]) (simp_all add: py_int_def time_t64_def)
  ultimately have e: "e = None"
    using r by (auto simp add: TripStop_set_from_api_def trip_stop_data_with_stop_def
        assign_def bind_r_def getitem_def int_simps Stop_objects_get_def example_world_def)
  from trip_stop_frame [OF r] e
  have "trip (receiver w') = Some 0 \<and> Trip_heap w' = Trip_heap example_world
      \<and> Stop_objects w' = Stop_objects example_world
      \<and> TripStop_created_at (receiver w') = TripStop_created_at (receiver example_world)"
    by simp
  with r e show ?thesis by (simp add: example_world_def TripStop_new_def)
qed

section \<open>Further facts about the population methods\<close>

text \<open>
  No \<^verbatim>\<open>set_from_api\<close> assigns the id: after a call, successful or not, the id of a
  \<open>Stop\<close>, \<open>Route\<close> or \<open>Trip\<close> is what it was before.
\<close>

theorem ids_never_assigned:
  "Stop_id (snd (Stop_set_from_api api_data s)) = Stop_id s
   \<and> Route_id (snd (Route_set_from_api api_data r)) = Route_id r
   \<and> Trip_id (snd (Trip_set_from_api api_data t)) = Trip_id t"
  by (simp add: Stop_set_from_api_def Route_set_from_api_def Trip_set_from_api_def
      if_raise_def assign_def split: sum.splits option.splits)

text \<open>
  The payload of \<^verbatim>\<open>test_trip_stop\<close> has no \<^verbatim>\<open>stop\<close> entry: on it,
  \<^verbatim>\<open>TripStop.set_from_api\<close> raises a \<^verbatim>\<open>KeyError\<close> when it looks the stop up, after it
  has assigned the trip.
\<close>

theorem test_trip_stop_payload_has_no_stop:
  "TripStop_set_from_api pf test_trip_stop_data tr w
     = (Some KeyError, w\<lparr>receiver := (receiver w)\<lparr>trip := Some tr\<rparr>\<rparr>)"
  by (simp add: TripStop_set_from_api_def test_trip_stop_data_def assign_def bind_r_def
      getitem_def)

end
